theory Spec2Isabelle
  imports Main "HOL-Library.Word" "HOL-Library.Sublist"
begin

chapter \<open>CMakeTemplate: the arithmetic self-check and the diagnostic reporter\<close>

text \<open>
  The repository holds two independent executables.
  \<^item> \<^verbatim>\<open>Basic/test/test_main.cpp\<close>: two functions on \<^verbatim>\<open>int\<close>, three test cases and
    a \<^verbatim>\<open>main\<close> that hands over to the test framework.
  \<^item> \<^verbatim>\<open>@small/src/main.cpp\<close>: a \<^verbatim>\<open>main\<close> whose text is selected by the preprocessor
    and that writes a report to standard output.
  Both are modelled below, the definitions first and the properties after them.
\<close>

section \<open>The self-check, \<^verbatim>\<open>Basic/test/test_main.cpp\<close>\<close>

subsection \<open>The functions under test\<close>

text \<open>
  \<^verbatim>\<open>int add(int a, int b) { return a + b; }\<close> and
  \<^verbatim>\<open>int multiply(int a, int b) { return a * b; }\<close>.
  An \<^verbatim>\<open>int\<close> is a two's complement word; its width \<open>LENGTH('a)\<close> is the platform's.
  \<open>sint\<close> reads the value of a word. The sum and the product are the operations of
  \<^verbatim>\<open>int\<close>, here the word operations: where the mathematical result is no value of
  \<^verbatim>\<open>int\<close>, C++ leaves the behaviour undefined and the specification leaves it to the
  platform ("undefined/wrapping per platform"); the word operations wrap there.
\<close>

definition add :: "'a::len word \<Rightarrow> 'a word \<Rightarrow> 'a word" where
  "add a b = a + b"

definition multiply :: "'a::len word \<Rightarrow> 'a word \<Rightarrow> 'a word" where
  "multiply a b = a * b"

subsection \<open>The string operations of the third test\<close>

text \<open>
  \<^verbatim>\<open>std::string::length\<close>, \<^verbatim>\<open>std::string::find\<close> and \<^verbatim>\<open>std::string::npos\<close> belong to
  the C++ standard library. A \<^verbatim>\<open>std::string\<close> is a sequence of bytes, a \<^verbatim>\<open>size_t\<close> an
  unsigned word of the platform's width. \<^verbatim>\<open>npos\<close> is \<^verbatim>\<open>size_t(-1)\<close>, and
  \<^verbatim>\<open>s.find(needle)\<close> is the lowest position at which \<^verbatim>\<open>needle\<close> occurs in \<^verbatim>\<open>s\<close>,
  or \<^verbatim>\<open>npos\<close> when it occurs nowhere.
\<close>

definition npos :: "'a::len word" where
  "npos = - 1"

definition length_std :: "string \<Rightarrow> 'a::len word" where
  "length_std s = word_of_nat (length s)"

fun find_from :: "string \<Rightarrow> string \<Rightarrow> nat \<Rightarrow> 'a::len word" where
  "find_from [] needle pos = (if needle = [] then word_of_nat pos else npos)"
| "find_from (c # cs) needle pos =
     (if prefix needle (c # cs) then word_of_nat pos else find_from cs needle (Suc pos))"

definition find_std :: "string \<Rightarrow> string \<Rightarrow> 'a::len word" where
  "find_std s needle = find_from s needle 0"

subsection \<open>The test cases\<close>

text \<open>
  The test cases are evaluated on the data model that the specification calls the common
  64-bit target: \<^verbatim>\<open>int\<close> has 32 bits and \<^verbatim>\<open>size_t\<close> has 64.
\<close>

type_synonym c_int = "32 word"
type_synonym size_t = "64 word"

text \<open>
  Modelled from the spec: the assertion macros \<^verbatim>\<open>EXPECT_EQ\<close> and \<^verbatim>\<open>EXPECT_TRUE\<close> are
  GoogleTest's and not part of the sources. The specification speaks of assertions that
  "check specific literal input/output pairs" and of "failed assertions": an assertion
  is its outcome, \<open>True\<close> when it passes. Both macros are non-fatal, so a test case is
  the list of the outcomes of all its assertions, in the order of the source.
\<close>

definition EXPECT_EQ :: "'a \<Rightarrow> 'a \<Rightarrow> bool" where
  "EXPECT_EQ val1 val2 = (val1 = val2)"

definition EXPECT_TRUE :: "bool \<Rightarrow> bool" where
  "EXPECT_TRUE condition = condition"

definition BasicTest_Addition :: "bool list" where
  "BasicTest_Addition =
     [EXPECT_EQ (add 2 3) (5 :: c_int),
      EXPECT_EQ (add (- 1) 1) (0 :: c_int),
      EXPECT_EQ (add 0 0) (0 :: c_int)]"

definition BasicTest_Multiplication :: "bool list" where
  "BasicTest_Multiplication =
     [EXPECT_EQ (multiply 2 3) (6 :: c_int),
      EXPECT_EQ (multiply (- 2) 3) (- 6 :: c_int),
      EXPECT_EQ (multiply 0 100) (0 :: c_int)]"

definition StringTest_BasicStringOperations :: "bool list" where
  "StringTest_BasicStringOperations =
     (let str = ''Hello, World!'' in
      [EXPECT_EQ (length_std str) (13 :: size_t),
       EXPECT_TRUE (find_std str ''World'' \<noteq> (npos :: size_t))])"

text \<open>
  Every \<^verbatim>\<open>TEST(suite, name)\<close> registers its body with the framework before \<^verbatim>\<open>main\<close>
  runs. The registry is the global state that \<^verbatim>\<open>main\<close> reads.
\<close>

type_synonym test_case = "string \<times> bool list"

definition registered_tests :: "test_case list" where
  "registered_tests =
     [(''BasicTest.Addition'', BasicTest_Addition),
      (''BasicTest.Multiplication'', BasicTest_Multiplication),
      (''StringTest.BasicStringOperations'', StringTest_BasicStringOperations)]"

subsection \<open>The entry point\<close>

text \<open>
  Modelled from the spec: \<^verbatim>\<open>RUN_ALL_TESTS\<close> is a macro of GoogleTest, a third-party
  framework whose code is not part of the sources. The specification says that the entry
  point "executes all registered cases, and returns a process exit code equal to the
  count of failed assertions (0 = all passed)". The runner below walks the registry and
  adds up the failed assertions of each case.
\<close>

fun failed_assertions :: "bool list \<Rightarrow> nat" where
  "failed_assertions [] = 0"
| "failed_assertions (passed # rest) =
     (if passed then failed_assertions rest else Suc (failed_assertions rest))"

fun run_cases :: "test_case list \<Rightarrow> nat \<Rightarrow> nat" where
  "run_cases [] failures = failures"
| "run_cases ((name, body) # cases) failures =
     run_cases cases (failures + failed_assertions body)"

definition RUN_ALL_TESTS :: "test_case list \<Rightarrow> int" where
  "RUN_ALL_TESTS registry = int (run_cases registry 0)"

text \<open>
  \<^verbatim>\<open>int main(int argc, char **argv) { ::testing::InitGoogleTest(&argc, argv);
  return RUN_ALL_TESTS(); }\<close>. The executable is run without arguments, so
  \<^verbatim>\<open>InitGoogleTest\<close> leaves the registry as it is; \<^verbatim>\<open>main\<close> returns what the runner
  returns.
\<close>

definition test_main :: "test_case list \<Rightarrow> int" where
  "test_main registry = RUN_ALL_TESTS registry"

section \<open>The diagnostic reporter, \<^verbatim>\<open>@small/src/main.cpp\<close>\<close>

subsection \<open>What the compiler and the build supply\<close>

text \<open>
  \<^verbatim>\<open>main\<close> has no run-time input. Its text is selected by the preprocessor from
  \<^item> the macros that the compiler predefines: \<^verbatim>\<open>__clang__\<close> with
    \<^verbatim>\<open>__clang_major__\<close>, \<^verbatim>\<open>__clang_minor__\<close> and \<^verbatim>\<open>__clang_patchlevel__\<close>; \<^verbatim>\<open>__GNUC__\<close>
    with \<^verbatim>\<open>__GNUC_MINOR__\<close> and \<^verbatim>\<open>__GNUC_PATCHLEVEL__\<close>; and \<^verbatim>\<open>__cplusplus\<close>. A
    compiler may define both families (Clang does), so each is optional on its own;
  \<^item> the sizes of the five types, values of \<^verbatim>\<open>size_t\<close>, an unsigned word of the
    platform's width \<open>LENGTH('a)\<close>;
  \<^item> the definitions that the build passes on the command line: a table from macro
    names to their expansions, where an absent name is an undefined macro. The table
    is read at the ten names that the source tests or uses; a definition of any other
    name is outside the model.
\<close>

record (overloaded) 'a toolchain =
  clang :: "(nat \<times> nat \<times> nat) option"
  gnuc :: "(nat \<times> nat \<times> nat) option"
  cplusplus :: int
  sizeof_char_ptr :: "'a word"
  sizeof_int :: "'a word"
  sizeof_long :: "'a word"
  sizeof_float :: "'a word"
  sizeof_double :: "'a word"

text \<open>
  The source uses a definition as an operand of \<^verbatim>\<open>operator<<\<close>. Three kinds of
  expansion are told apart by what the compiler makes of that operand:
  \<^item> a string literal, given by the bytes of its array without the final zero;
  \<^item> an integer constant of one of the types \<^verbatim>\<open>int\<close>, \<^verbatim>\<open>long\<close> and \<^verbatim>\<open>long long\<close>,
    given by its value. The values are those of a 64-bit \<^verbatim>\<open>long long\<close>; the type
    \<open>long_long\<close> holds no other number, so a literal too large for every standard
    type (which a compiler rejects, or accepts with another value and a warning) is
    not an integer constant of the model;
  \<^item> an expansion that the compiler rejects as an operand: no expression, a name
    that nothing declares, or a value of a type that \<^verbatim>\<open>operator<<\<close> does not print.
  An expansion that \<^verbatim>\<open>operator<<\<close> prints in another way (a floating-point number, a
  character) is outside the model.
\<close>

typedef long_long = "{i :: int. - (2 ^ 63) \<le> i \<and> i < 2 ^ 63}"
  by (rule exI [of _ 0]) simp

datatype macro_value = String_literal string | Integer_literal long_long | Not_printable

type_synonym definitions = "string \<rightharpoonup> macro_value"

definition defined :: "definitions \<Rightarrow> string \<Rightarrow> bool" where
  "defined D name = (D name \<noteq> None)"

subsection \<open>Writing to the standard output\<close>

definition newline :: char where
  "newline = CHR 0x0A"

definition dquote :: char where
  "dquote = CHR 0x22"

definition endl :: string where
  "endl = [newline]"

text \<open>\<^verbatim>\<open>operator<<\<close> prints an unsigned or a signed integer in decimal.\<close>

fun string_of_nat :: "nat \<Rightarrow> string" where
  "string_of_nat n =
     (if n < 10 then [''0123456789'' ! n]
      else string_of_nat (n div 10) @ [''0123456789'' ! (n mod 10)])"

declare string_of_nat.simps [simp del]

definition string_of_int :: "int \<Rightarrow> string" where
  "string_of_int i =
     (if i < 0 then CHR ''-'' # string_of_nat (nat (- i)) else string_of_nat (nat i))"

text \<open>
  A macro name that no definition supplies stays an identifier, which nothing declares,
  and an expansion that is no printable operand does not compile either: the
  translation unit is rejected and there is no executable. An operand of \<^verbatim>\<open><<\<close>
  is therefore an error or the text it prints, and a chain of \<^verbatim>\<open><<\<close> is the first
  error among its operands or the concatenation of their texts.
\<close>

datatype build_error = Undeclared_identifier string | Invalid_operand string

definition lit :: "string \<Rightarrow> build_error + string" where
  "lit s = Inr s"

text \<open>
  A string literal is passed as a \<^verbatim>\<open>const char *\<close> and printed up to its first zero
  byte; an integer constant is printed in decimal, with its sign.
\<close>

definition expand :: "definitions \<Rightarrow> string \<Rightarrow> build_error + string" where
  "expand D name =
     (case D name of
        None \<Rightarrow> Inl (Undeclared_identifier name)
      | Some (String_literal s) \<Rightarrow> Inr (takeWhile (\<lambda>c. c \<noteq> CHR 0x00) s)
      | Some (Integer_literal i) \<Rightarrow> Inr (string_of_int (Rep_long_long i))
      | Some Not_printable \<Rightarrow> Inl (Invalid_operand name))"

fun cout :: "(build_error + string) list \<Rightarrow> build_error + string" where
  "cout [] = Inr []"
| "cout (Inl e # rest) = Inl e"
| "cout (Inr s # rest) = (case cout rest of Inl e \<Rightarrow> Inl e | Inr t \<Rightarrow> Inr (s @ t))"

subsection \<open>The sections of the report\<close>

text \<open>
  Lines 6 to 9:
  \<^verbatim>\<open>#if defined(PROJECT_NAME) && defined(PROJECT_VERSION)\<close> guards one output statement.
\<close>

definition project_line :: "definitions \<Rightarrow> build_error + string" where
  "project_line D =
     (if defined D ''PROJECT_NAME'' \<and> defined D ''PROJECT_VERSION''
      then cout [lit ''Project Name is '', expand D ''PROJECT_NAME'',
                 lit '' and Project Version is '', expand D ''PROJECT_VERSION'', lit endl]
      else lit [])"

text \<open>
  Lines 11 to 21: \<^verbatim>\<open>#if defined(__clang__)\<close>, \<^verbatim>\<open>#elif defined(__GNUC__)\<close>,
  \<^verbatim>\<open>#else\<close>.
\<close>

definition compiler_info :: "'a::len toolchain \<Rightarrow> string" where
  "compiler_info T =
     (case clang T of
        Some (major, minor, patchlevel) \<Rightarrow>
          ''Compiler: Clang'' @ endl @
          ''Version: '' @ string_of_nat major @ ''.'' @ string_of_nat minor @ ''.'' @
            string_of_nat patchlevel @ endl
      | None \<Rightarrow>
          (case gnuc T of
             Some (major, minor, patchlevel) \<Rightarrow>
               ''Compiler: GCC'' @ endl @
               ''Version: '' @ string_of_nat major @ ''.'' @ string_of_nat minor @ ''.'' @
                 string_of_nat patchlevel @ endl
           | None \<Rightarrow> ''Unknown compiler'' @ endl))"

text \<open>
  Lines 24 to 36: the chain \<^verbatim>\<open>#if __cplusplus == 199711L\<close> ... \<^verbatim>\<open>#else\<close>. Each branch
  prints one literal that ends in \<^verbatim>\<open>\n\<close>; the function gives the literal without it.
\<close>

definition language_standard :: "int \<Rightarrow> string" where
  "language_standard v =
     (if v = 199711 then ''C++98/03''
      else if v = 201103 then ''C++11''
      else if v = 201402 then ''C++14''
      else if v = 201703 then ''C++17''
      else if v = 202002 then ''C++20''
      else ''Newer C++ version or unknown'')"

text \<open>
  Lines 39 to 45: \<^verbatim>\<open>#ifdef _DEBUG\<close>, \<^verbatim>\<open>#elif defined(NDEBUG)\<close>, \<^verbatim>\<open>#else\<close>. Each branch
  prints one literal and \<^verbatim>\<open>std::endl\<close>; the function gives the literal.
\<close>

definition build_mode :: "definitions \<Rightarrow> string" where
  "build_mode D =
     (if defined D ''_DEBUG'' then ''Debug mode (_DEBUG is defined)''
      else if defined D ''NDEBUG'' then ''Release mode (NDEBUG is defined)''
      else ''Debug mode (NDEBUG is not defined)'')"

text \<open>
  Lines 48 to 52. \<^verbatim>\<open>sizeof(T) * 8\<close> is a product in \<^verbatim>\<open>size_t\<close>, printed as an unsigned
  number.
\<close>

definition type_sizes :: "'a::len toolchain \<Rightarrow> string" where
  "type_sizes T =
     ''Size of char *: '' @ string_of_nat (unat (sizeof_char_ptr T * 8)) @ '' bits'' @ endl @
     ''Size of int: '' @ string_of_nat (unat (sizeof_int T * 8)) @ '' bits'' @ endl @
     ''Size of long: '' @ string_of_nat (unat (sizeof_long T * 8)) @ '' bits'' @ endl @
     ''Size of float: '' @ string_of_nat (unat (sizeof_float T * 8)) @ '' bits'' @ endl @
     ''Size of double: '' @ string_of_nat (unat (sizeof_double T * 8)) @ '' bits'' @ endl"

text \<open>Lines 54 to 59: five definitions are printed, with no guard.\<close>

definition compile_definitions :: "definitions \<Rightarrow> build_error + string" where
  "compile_definitions D =
     cout [lit (newline # ''target_compile_definitions:''),
           lit (newline # ''Project Name: ''), expand D ''PROJECT_NAME'',
           lit (newline # ''Project Version: ''), expand D ''PROJECT_VERSION'',
           lit (newline # ''ONE_ = ''), expand D ''ONE_'',
           lit (newline # ''TWO = ''), expand D ''TWO_'',
           lit (newline # ''THREE = ''), expand D ''THREE_'', lit endl]"

text \<open>Lines 61 to 65: three more definitions are printed, with no guard.\<close>

definition source_file_properties :: "definitions \<Rightarrow> build_error + string" where
  "source_file_properties D =
     cout [lit (newline # ''set_source_files_properties:'' @ newline #
                ''main.cpp PROPERTIES '' @ [newline]),
           lit (''MAIN_FILE_='' @ [dquote]), expand D ''MAIN_FILE_'',
           lit (dquote # '' '' @ [newline]),
           lit (''MSG1='' @ [dquote]), expand D ''MSG1'', lit (dquote # '' '' @ [newline]),
           lit (''MSG2='' @ [dquote]), expand D ''MSG2'', lit (dquote # '' '' @ [newline]),
           lit endl]"

subsection \<open>The entry point\<close>

text \<open>
  \<^verbatim>\<open>int main()\<close>: the output statements in the order of the source, then
  \<^verbatim>\<open>return 0\<close>. The result is the build error, when the translation unit is rejected,
  or the text written to the standard output and the exit code.
\<close>

definition main :: "'a::len toolchain \<Rightarrow> definitions \<Rightarrow> build_error + string \<times> int" where
  "main T D =
     (case cout [lit (''Hello, World!'' @ endl),
                 lit (''Information from CMake:'' @ endl),
                 project_line D,
                 lit (compiler_info T),
                 lit (language_standard (cplusplus T) @ [newline]),
                 lit (build_mode D @ endl),
                 lit (type_sizes T),
                 compile_definitions D,
                 source_file_properties D] of
        Inl e \<Rightarrow> Inl e
      | Inr out \<Rightarrow> Inr (out, 0))"

subsection \<open>Notions that the properties use\<close>

text \<open>The lines of a text: the segments between its newline characters.\<close>

fun split_lines :: "string \<Rightarrow> string \<Rightarrow> string list" where
  "split_lines cur [] = [rev cur]"
| "split_lines cur (c # cs) =
     (if c = newline then rev cur # split_lines [] cs else split_lines (c # cur) cs)"

definition lines_of :: "string \<Rightarrow> string list" where
  "lines_of s = split_lines [] s"

text \<open>The definitions that lines 54 to 65 use, in the order of their first use.\<close>

definition required_definitions :: "string list" where
  "required_definitions =
     [''PROJECT_NAME'', ''PROJECT_VERSION'', ''ONE_'', ''TWO_'', ''THREE_'',
      ''MAIN_FILE_'', ''MSG1'', ''MSG2'']"

text \<open>The first line that each branch of lines 11 to 21 prints.\<close>

definition compiler_family :: "'a::len toolchain \<Rightarrow> string" where
  "compiler_family T =
     (if clang T \<noteq> None then ''Compiler: Clang''
      else if gnuc T \<noteq> None then ''Compiler: GCC''
      else ''Unknown compiler'')"

text \<open>A text is terminated when it is empty or ends in a newline.\<close>

definition terminated :: "string \<Rightarrow> bool" where
  "terminated s = (s = [] \<or> last s = newline)"

subsection \<open>Sample inputs\<close>

text \<open>
  A GCC 13.2.0 in C++17 mode on the common 64-bit target of the specification, and a set
  of definitions as a build of the template passes them.
\<close>

definition lp64_gcc :: "64 toolchain" where
  "lp64_gcc =
     \<lparr>clang = None, gnuc = Some (13, 2, 0), cplusplus = 201703,
      sizeof_char_ptr = 8, sizeof_int = 4, sizeof_long = 8, sizeof_float = 4,
      sizeof_double = 8\<rparr>"

definition sample_definitions :: definitions where
  "sample_definitions =
     [''PROJECT_NAME'' \<mapsto> String_literal ''small'',
      ''PROJECT_VERSION'' \<mapsto> String_literal ''1.0.0'',
      ''ONE_'' \<mapsto> Integer_literal (Abs_long_long 1),
      ''TWO_'' \<mapsto> Integer_literal (Abs_long_long 2),
      ''THREE_'' \<mapsto> Integer_literal (Abs_long_long 3),
      ''MAIN_FILE_'' \<mapsto> String_literal ''main.cpp'',
      ''MSG1'' \<mapsto> String_literal ''hello'',
      ''MSG2'' \<mapsto> String_literal ''world'']"

section \<open>Properties of the self-check\<close>

subsection \<open>Helper facts\<close>

lemma sint_add_exact_iff:
  fixes a b :: "'a::len word"
  shows "(sint (a + b) = sint a + sint b) =
    (- (2 ^ (LENGTH('a) - 1)) \<le> sint a + sint b \<and> sint a + sint b < 2 ^ (LENGTH('a) - 1))"
  by (simp add: sint_word_ariths signed_take_bit_int_eq_self_iff)

lemma sint_mult_exact_iff:
  fixes a b :: "'a::len word"
  shows "(sint (a * b) = sint a * sint b) =
    (- (2 ^ (LENGTH('a) - 1)) \<le> sint a * sint b \<and> sint a * sint b < 2 ^ (LENGTH('a) - 1))"
  by (simp add: sint_word_ariths signed_take_bit_int_eq_self_iff)

lemma seven_neq_npos:
  assumes "4 \<le> LENGTH('a::len)"
  shows "(7 :: 'a word) \<noteq> npos"
proof
  assume "(7 :: 'a word) = npos"
  then have "(7 :: 'a word) + 1 = 0"
    by (simp add: npos_def)
  then have "(word_of_nat 8 :: 'a word) = 0"
    by simp
  then have "2 ^ LENGTH('a) dvd (8 :: nat)"
    by (simp only: word_of_nat_eq_0_iff)
  then have "(2 :: nat) ^ LENGTH('a) \<le> 8"
    by (rule dvd_imp_le) simp
  moreover have "(2 :: nat) ^ 4 \<le> 2 ^ LENGTH('a)"
    using assms by (rule power_increasing) simp
  ultimately show False
    by simp
qed

lemma failed_assertions_filter: "failed_assertions body = length (filter Not body)"
  by (induction body) simp_all

lemma no_failed_assertion_iff: "(filter Not outcomes = []) = (False \<notin> set outcomes)"
  by (induction outcomes) auto

lemma run_cases_count:
  "run_cases cases n = n + length (filter Not (concat (map snd cases)))"
  by (induction cases n rule: run_cases.induct) (simp_all add: failed_assertions_filter)

lemma BasicTest_Addition_passes: "BasicTest_Addition = [True, True, True]"
  by (simp add: BasicTest_Addition_def EXPECT_EQ_def add_def)

lemma BasicTest_Multiplication_passes: "BasicTest_Multiplication = [True, True, True]"
  by (simp add: BasicTest_Multiplication_def EXPECT_EQ_def multiply_def)

lemma StringTest_passes: "StringTest_BasicStringOperations = [True, True]"
  by (simp add: StringTest_BasicStringOperations_def EXPECT_EQ_def EXPECT_TRUE_def
      length_std_def find_std_def npos_def)

subsection \<open>The claims\<close>

text \<open>
  C1. For every pair of \<^verbatim>\<open>int\<close> values \<open>a\<close> and \<open>b\<close>, whatever the width of \<^verbatim>\<open>int\<close>,
  \<open>add a b\<close> is the sum \<open>a + b\<close> of \<^verbatim>\<open>int\<close>, the expression of the source; in
  particular \<open>add 2 3 = 5\<close>, \<open>add (-1) 1 = 0\<close> and \<open>add 0 0 = 0\<close>. The value of that sum is
  the sum of the values exactly when the latter is a value of \<^verbatim>\<open>int\<close>; beyond that range
  the specification leaves the result to the platform.
\<close>

theorem add_returns_int_sum:
  fixes a b :: "'a::len word"
  shows "add a b = a + b
    \<and> (sint (add a b) = sint a + sint b) =
      (- (2 ^ (LENGTH('a) - 1)) \<le> sint a + sint b \<and> sint a + sint b < 2 ^ (LENGTH('a) - 1))
    \<and> add 2 3 = (5 :: 'a word) \<and> add (- 1) 1 = (0 :: 'a word) \<and> add 0 0 = (0 :: 'a word)
    \<and> sint (add 2 3 :: c_int) = 5 \<and> sint (add (- 1) 1 :: c_int) = 0
    \<and> sint (add 0 0 :: c_int) = 0"
  by (simp add: add_def sint_add_exact_iff)

text \<open>
  C2. For every pair of \<^verbatim>\<open>int\<close> values \<open>a\<close> and \<open>b\<close>, whatever the width of \<^verbatim>\<open>int\<close>,
  \<open>multiply a b\<close> is the product \<open>a * b\<close> of \<^verbatim>\<open>int\<close>, the expression of the source; in
  particular \<open>multiply 2 3 = 6\<close>, \<open>multiply (-2) 3 = -6\<close> and \<open>multiply 0 100 = 0\<close>. The
  value of that product is the product of the values exactly when the latter is a value
  of \<^verbatim>\<open>int\<close>; beyond that range the specification leaves the result to the platform.
\<close>

theorem multiply_returns_int_product:
  fixes a b :: "'a::len word"
  shows "multiply a b = a * b
    \<and> (sint (multiply a b) = sint a * sint b) =
      (- (2 ^ (LENGTH('a) - 1)) \<le> sint a * sint b \<and> sint a * sint b < 2 ^ (LENGTH('a) - 1))
    \<and> multiply 2 3 = (6 :: 'a word) \<and> multiply (- 2) 3 = (- 6 :: 'a word)
    \<and> multiply 0 100 = (0 :: 'a word)
    \<and> sint (multiply 2 3 :: c_int) = 6 \<and> sint (multiply (- 2) 3 :: c_int) = - 6
    \<and> sint (multiply 0 100 :: c_int) = 0"
  by (simp add: multiply_def sint_mult_exact_iff)

text \<open>
  C9. The string \<^verbatim>\<open>"Hello, World!"\<close> has length 13, and searching it for \<^verbatim>\<open>"World"\<close>
  yields position 7, which is not \<^verbatim>\<open>npos\<close>. This holds for every width of \<^verbatim>\<open>size_t\<close>
  that C++ allows (at least 16 bits).
\<close>

theorem hello_world_length_and_find:
  assumes "16 \<le> LENGTH('a::len)"
  shows "length_std ''Hello, World!'' = (13 :: 'a word)
    \<and> find_std ''Hello, World!'' ''World'' = (7 :: 'a word)
    \<and> find_std ''Hello, World!'' ''World'' \<noteq> (npos :: 'a word)"
proof -
  have found: "find_std ''Hello, World!'' ''World'' = (7 :: 'a word)"
    by (simp add: find_std_def)
  have "4 \<le> LENGTH('a)"
    using assms by simp
  then have "(7 :: 'a word) \<noteq> npos"
    by (rule seven_neq_npos)
  with found show ?thesis
    by (simp add: length_std_def)
qed

theorem hello_world_length_and_find_witness:
  "16 \<le> LENGTH(64)
   \<and> length_std ''Hello, World!'' = (13 :: size_t)
   \<and> find_std ''Hello, World!'' ''World'' = (7 :: size_t)
   \<and> find_std ''Hello, World!'' ''World'' \<noteq> (npos :: size_t)"
proof -
  have wide: "16 \<le> LENGTH(64)"
    by simp
  from wide hello_world_length_and_find [OF wide] show ?thesis
    by blast
qed

text \<open>
  C3. The exit code of the self-check is the number of failed assertions of all
  registered test cases: it is 0 exactly when no assertion fails and positive exactly
  when one does. For the three test cases of the file no assertion fails, and the exit
  code is 0.
\<close>

theorem test_main_returns_failure_count:
  "test_main registry = int (length (filter Not (concat (map snd registry))))
   \<and> (test_main registry = 0) = (False \<notin> set (concat (map snd registry)))
   \<and> (0 < test_main registry) = (False \<in> set (concat (map snd registry)))
   \<and> test_main registered_tests = 0"
proof -
  have count: "test_main registry = int (length (filter Not (concat (map snd registry))))"
    by (simp add: test_main_def RUN_ALL_TESTS_def run_cases_count)
  have none: "(length (filter Not (concat (map snd registry))) = 0)
      = (False \<notin> set (concat (map snd registry)))"
    by (simp only: length_0_conv no_failed_assertion_iff)
  have here: "test_main registered_tests = 0"
    by (simp add: test_main_def RUN_ALL_TESTS_def run_cases_count registered_tests_def
        BasicTest_Addition_passes BasicTest_Multiplication_passes StringTest_passes)
  from count none here show ?thesis
    by auto
qed

section \<open>Properties of the diagnostic reporter\<close>

subsection \<open>Lines of a text\<close>

lemma terminated_append: "terminated a \<Longrightarrow> terminated b \<Longrightarrow> terminated (a @ b)"
  by (cases "b = []") (auto simp: terminated_def)

lemma terminated_endl: "terminated (s @ endl)"
  by (simp add: terminated_def endl_def)

lemma terminated_newline: "terminated (s @ [newline])"
  by (simp add: terminated_def)

lemma split_lines_append:
  "split_lines cur (a @ newline # b) = split_lines cur a @ split_lines [] b"
  by (induction a arbitrary: cur) simp_all

lemma split_lines_single: "newline \<notin> set l \<Longrightarrow> split_lines cur l = [rev cur @ l]"
  by (induction l arbitrary: cur) auto

lemma line_skip:
  assumes "terminated a" and "l \<in> set (lines_of b)"
  shows "l \<in> set (lines_of (a @ b))"
proof (cases "a = []")
  case True
  with assms(2) show ?thesis
    by simp
next
  case False
  with assms(1) have "a = butlast a @ [newline]"
    by (simp add: terminated_def) (metis append_butlast_last_id)
  then obtain q where "a = q @ [newline]" ..
  then have "lines_of (a @ b) = split_lines [] q @ lines_of b"
    by (simp add: lines_of_def split_lines_append)
  with assms(2) show ?thesis
    by simp
qed

lemma line_head:
  assumes "newline \<notin> set l"
  shows "l \<in> set (lines_of ((l @ [newline]) @ b))"
  using assms by (simp add: lines_of_def split_lines_append split_lines_single)

subsection \<open>Decimal numbers\<close>

lemma digits_of_nat: "set (string_of_nat n) \<subseteq> set ''0123456789''"
proof (induction n rule: string_of_nat.induct)
  case (1 n)
  have digit: "''0123456789'' ! k \<in> set ''0123456789''" if "k < 10" for k
    by (rule nth_mem) (use that in simp)
  show ?case
  proof (cases "n < 10")
    case True
    then show ?thesis
      using digit [of n] by (subst string_of_nat.simps) simp
  next
    case False
    have "''0123456789'' ! (n mod 10) \<in> set ''0123456789''"
      by (rule digit) simp
    with False 1 show ?thesis
      by (subst string_of_nat.simps) simp
  qed
qed

lemma newline_notin_string_of_nat: "newline \<notin> set (string_of_nat n)"
  using digits_of_nat [of n] by (auto simp: newline_def)

lemma size_t_times_8:
  fixes s :: "'a::len word"
  assumes "unat s * 8 < 2 ^ LENGTH('a)"
  shows "unat (s * 8) = unat s * 8"
proof -
  have "s * 8 = word_of_nat (unat s * 8)"
    by simp
  then have "unat (s * 8) = (unat s * 8) mod 2 ^ LENGTH('a)"
    by (simp only: unat_of_nat)
  with assms show ?thesis
    by simp
qed

subsection \<open>Chains of output operands\<close>

lemma cout_Cons_Inr:
  "(cout (x # xs) = Inr s) = (\<exists>a b. x = Inr a \<and> cout xs = Inr b \<and> s = a @ b)"
  by (cases x; cases "cout xs") auto

lemma expand_Inr_defined: "expand D name = Inr s \<Longrightarrow> defined D name"
  by (auto simp: expand_def defined_def split: option.splits)

subsection \<open>The sections\<close>

lemma project_line_omitted:
  "\<not> (defined D ''PROJECT_NAME'' \<and> defined D ''PROJECT_VERSION'') \<Longrightarrow> project_line D = Inr []"
  by (auto simp: project_line_def lit_def)

lemma project_line_terminated: "project_line D = Inr p \<Longrightarrow> terminated p"
  by (auto simp: project_line_def cout_Cons_Inr lit_def terminated_def endl_def
      simp del: cout.simps(3) split: if_splits)

lemma compiler_info_terminated: "terminated (compiler_info T)"
  by (auto simp: compiler_info_def terminated_def endl_def split: option.splits)

lemma compiler_info_head:
  "\<exists>rest. compiler_info T @ b = (compiler_family T @ [newline]) @ rest"
  by (auto simp: compiler_info_def compiler_family_def endl_def split: option.splits)

lemma newline_notin_compiler_family: "newline \<notin> set (compiler_family T)"
  by (simp add: compiler_family_def newline_def)

lemma newline_notin_language_standard: "newline \<notin> set (language_standard v)"
  by (simp add: language_standard_def newline_def)

lemma newline_notin_build_mode: "newline \<notin> set (build_mode D)"
  by (simp add: build_mode_def newline_def)

lemma newline_notin_size_line:
  "newline \<notin> set (label @ string_of_nat n @ '' bits'')" if "newline \<notin> set label"
  using that by (simp add: newline_notin_string_of_nat) (simp add: newline_def)

lemma compile_definitions_Inr_defined:
  assumes "compile_definitions D = Inr s"
  shows "defined D ''PROJECT_NAME'' \<and> defined D ''PROJECT_VERSION'' \<and> defined D ''ONE_''
      \<and> defined D ''TWO_'' \<and> defined D ''THREE_''"
  using assms
  by (auto simp: compile_definitions_def cout_Cons_Inr lit_def simp del: cout.simps(3)
      dest: expand_Inr_defined)

lemma source_file_properties_Inr_defined:
  assumes "source_file_properties D = Inr s"
  shows "defined D ''MAIN_FILE_'' \<and> defined D ''MSG1'' \<and> defined D ''MSG2''"
  using assms
  by (auto simp: source_file_properties_def cout_Cons_Inr lit_def simp del: cout.simps(3)
      dest: expand_Inr_defined)

lemma type_sizes_lines:
  fixes T :: "'a::len toolchain"
  assumes "terminated a"
  shows "(''Size of char *: '' @ string_of_nat (unat (sizeof_char_ptr T * 8)) @ '' bits'')
        \<in> set (lines_of (a @ type_sizes T @ e))"
    and "(''Size of int: '' @ string_of_nat (unat (sizeof_int T * 8)) @ '' bits'')
        \<in> set (lines_of (a @ type_sizes T @ e))"
    and "(''Size of long: '' @ string_of_nat (unat (sizeof_long T * 8)) @ '' bits'')
        \<in> set (lines_of (a @ type_sizes T @ e))"
    and "(''Size of float: '' @ string_of_nat (unat (sizeof_float T * 8)) @ '' bits'')
        \<in> set (lines_of (a @ type_sizes T @ e))"
    and "(''Size of double: '' @ string_of_nat (unat (sizeof_double T * 8)) @ '' bits'')
        \<in> set (lines_of (a @ type_sizes T @ e))"
proof -
  let ?l1 = "''Size of char *: '' @ string_of_nat (unat (sizeof_char_ptr T * 8)) @ '' bits''"
  let ?l2 = "''Size of int: '' @ string_of_nat (unat (sizeof_int T * 8)) @ '' bits''"
  let ?l3 = "''Size of long: '' @ string_of_nat (unat (sizeof_long T * 8)) @ '' bits''"
  let ?l4 = "''Size of float: '' @ string_of_nat (unat (sizeof_float T * 8)) @ '' bits''"
  let ?l5 = "''Size of double: '' @ string_of_nat (unat (sizeof_double T * 8)) @ '' bits''"
  have eq: "type_sizes T @ e =
      (?l1 @ [newline]) @ (?l2 @ [newline]) @ (?l3 @ [newline]) @ (?l4 @ [newline]) @
      (?l5 @ [newline]) @ e"
    by (simp add: type_sizes_def endl_def)
  have n1: "newline \<notin> set ?l1" by (rule newline_notin_size_line) (simp add: newline_def)
  have n2: "newline \<notin> set ?l2" by (rule newline_notin_size_line) (simp add: newline_def)
  have n3: "newline \<notin> set ?l3" by (rule newline_notin_size_line) (simp add: newline_def)
  have n4: "newline \<notin> set ?l4" by (rule newline_notin_size_line) (simp add: newline_def)
  have n5: "newline \<notin> set ?l5" by (rule newline_notin_size_line) (simp add: newline_def)
  show "?l1 \<in> set (lines_of (a @ type_sizes T @ e))"
    unfolding eq by (intro line_skip [OF assms] line_head n1)
  show "?l2 \<in> set (lines_of (a @ type_sizes T @ e))"
    unfolding eq by (intro line_skip [OF assms] line_skip [OF terminated_newline] line_head n2)
  show "?l3 \<in> set (lines_of (a @ type_sizes T @ e))"
    unfolding eq by (intro line_skip [OF assms] line_skip [OF terminated_newline] line_head n3)
  show "?l4 \<in> set (lines_of (a @ type_sizes T @ e))"
    unfolding eq by (intro line_skip [OF assms] line_skip [OF terminated_newline] line_head n4)
  show "?l5 \<in> set (lines_of (a @ type_sizes T @ e))"
    unfolding eq by (intro line_skip [OF assms] line_skip [OF terminated_newline] line_head n5)
qed

subsection \<open>The whole report\<close>

lemma main_Inr_cout:
  "(main T D = Inr (out, rc)) =
     (cout [lit (''Hello, World!'' @ endl),
            lit (''Information from CMake:'' @ endl),
            project_line D,
            lit (compiler_info T),
            lit (language_standard (cplusplus T) @ [newline]),
            lit (build_mode D @ endl),
            lit (type_sizes T),
            compile_definitions D,
            source_file_properties D] = Inr out \<and> rc = 0)"
  by (auto simp: main_def simp del: cout.simps split: sum.splits)

lemma main_exit_code: "main T D = Inr (out, rc) \<Longrightarrow> rc = 0"
  by (simp add: main_Inr_cout)

lemma main_Inr_defined:
  assumes "main T D = Inr (out, rc)"
  shows "\<forall>n \<in> set required_definitions. defined D n"
proof -
  from assms obtain c s where "compile_definitions D = Inr c"
    and "source_file_properties D = Inr s"
    by (auto simp: main_Inr_cout cout_Cons_Inr lit_def simp del: cout.simps(3))
  then show ?thesis
    using compile_definitions_Inr_defined [of D c] source_file_properties_Inr_defined [of D s]
    by (simp add: required_definitions_def)
qed

lemma main_rejects_absent:
  assumes "\<exists>n \<in> set required_definitions. \<not> defined D n"
  shows "\<exists>e. main T D = Inl e"
proof (cases "main T D")
  case (Inl e)
  then show ?thesis
    by blast
next
  case (Inr r)
  then have "main T D = Inr (fst r, snd r)"
    by simp
  then have "\<forall>n \<in> set required_definitions. defined D n"
    by (rule main_Inr_defined)
  with assms show ?thesis
    by blast
qed

lemma main_builds:
  assumes "\<forall>n \<in> set required_definitions. \<exists>s. expand D n = Inr s"
  shows "\<exists>out. main T D = Inr (out, 0)"
proof -
  from assms obtain pn pv where pn: "expand D ''PROJECT_NAME'' = Inr pn"
    and pv: "expand D ''PROJECT_VERSION'' = Inr pv"
    by (auto simp: required_definitions_def)
  then have "\<exists>p. project_line D = Inr p"
    by (simp add: project_line_def lit_def)
  moreover from assms have "\<exists>c. compile_definitions D = Inr c"
    by (auto simp: required_definitions_def compile_definitions_def lit_def)
  moreover from assms have "\<exists>s. source_file_properties D = Inr s"
    by (auto simp: required_definitions_def source_file_properties_def lit_def)
  ultimately show ?thesis
    by (auto simp: main_Inr_cout cout_Cons_Inr lit_def simp del: cout.simps(3))
qed

lemma main_output:
  assumes "main T D = Inr (out, rc)"
  obtains p e where "terminated p"
    and "out = (''Hello, World!'' @ endl) @ (''Information from CMake:'' @ endl) @ p @
          compiler_info T @ (language_standard (cplusplus T) @ [newline]) @
          (build_mode D @ endl) @ type_sizes T @ e"
proof -
  from assms obtain p e where "project_line D = Inr p"
    and "out = (''Hello, World!'' @ endl) @ (''Information from CMake:'' @ endl) @ p @
          compiler_info T @ (language_standard (cplusplus T) @ [newline]) @
          (build_mode D @ endl) @ type_sizes T @ e"
    by (auto simp: main_Inr_cout cout_Cons_Inr lit_def simp del: cout.simps(3))
  then show thesis
    using that project_line_terminated by blast
qed

lemma report_lines:
  fixes T :: "'a::len toolchain"
  assumes "main T D = Inr (out, rc)"
  shows "compiler_family T \<in> set (lines_of out)"
    and "language_standard (cplusplus T) \<in> set (lines_of out)"
    and "build_mode D \<in> set (lines_of out)"
    and "(''Size of char *: '' @ string_of_nat (unat (sizeof_char_ptr T * 8)) @ '' bits'')
        \<in> set (lines_of out)"
    and "(''Size of int: '' @ string_of_nat (unat (sizeof_int T * 8)) @ '' bits'')
        \<in> set (lines_of out)"
    and "(''Size of long: '' @ string_of_nat (unat (sizeof_long T * 8)) @ '' bits'')
        \<in> set (lines_of out)"
    and "(''Size of float: '' @ string_of_nat (unat (sizeof_float T * 8)) @ '' bits'')
        \<in> set (lines_of out)"
    and "(''Size of double: '' @ string_of_nat (unat (sizeof_double T * 8)) @ '' bits'')
        \<in> set (lines_of out)"
proof -
  from assms obtain p e where p: "terminated p"
    and out: "out = (''Hello, World!'' @ endl) @ (''Information from CMake:'' @ endl) @ p @
          compiler_info T @ (language_standard (cplusplus T) @ [newline]) @
          (build_mode D @ endl) @ type_sizes T @ e"
    by (rule main_output)
  let ?tail = "(language_standard (cplusplus T) @ [newline]) @
          (build_mode D @ endl) @ type_sizes T @ e"
  obtain rest where ci: "compiler_info T @ ?tail = (compiler_family T @ [newline]) @ rest"
    using compiler_info_head by blast
  have "compiler_family T \<in> set (lines_of ((compiler_family T @ [newline]) @ rest))"
    by (rule line_head) (rule newline_notin_compiler_family)
  then have "compiler_family T \<in> set (lines_of (compiler_info T @ ?tail))"
    by (simp only: ci)
  then show "compiler_family T \<in> set (lines_of out)"
    unfolding out
    by (intro line_skip [OF terminated_endl] line_skip [OF p])
  show "language_standard (cplusplus T) \<in> set (lines_of out)"
    unfolding out
    by (intro line_skip terminated_endl p compiler_info_terminated line_head
        newline_notin_language_standard)
  show "build_mode D \<in> set (lines_of out)"
    unfolding out endl_def
    by (intro line_skip terminated_newline p compiler_info_terminated line_head
        newline_notin_build_mode)
  have pre: "terminated ((''Hello, World!'' @ endl) @ (''Information from CMake:'' @ endl) @ p @
          compiler_info T @ (language_standard (cplusplus T) @ [newline]) @
          (build_mode D @ endl))"
    by (intro terminated_append terminated_endl terminated_newline p compiler_info_terminated)
  have out': "out = ((''Hello, World!'' @ endl) @ (''Information from CMake:'' @ endl) @ p @
          compiler_info T @ (language_standard (cplusplus T) @ [newline]) @
          (build_mode D @ endl)) @ type_sizes T @ e"
    unfolding out by simp
  show "(''Size of char *: '' @ string_of_nat (unat (sizeof_char_ptr T * 8)) @ '' bits'')
        \<in> set (lines_of out)"
    unfolding out' by (rule type_sizes_lines [OF pre])
  show "(''Size of int: '' @ string_of_nat (unat (sizeof_int T * 8)) @ '' bits'')
        \<in> set (lines_of out)"
    unfolding out' by (rule type_sizes_lines [OF pre])
  show "(''Size of long: '' @ string_of_nat (unat (sizeof_long T * 8)) @ '' bits'')
        \<in> set (lines_of out)"
    unfolding out' by (rule type_sizes_lines [OF pre])
  show "(''Size of float: '' @ string_of_nat (unat (sizeof_float T * 8)) @ '' bits'')
        \<in> set (lines_of out)"
    unfolding out' by (rule type_sizes_lines [OF pre])
  show "(''Size of double: '' @ string_of_nat (unat (sizeof_double T * 8)) @ '' bits'')
        \<in> set (lines_of out)"
    unfolding out' by (rule type_sizes_lines [OF pre])
qed

subsection \<open>The sample inputs\<close>

lemma sample_printable:
  "\<forall>n \<in> set required_definitions. \<exists>s. expand sample_definitions n = Inr s"
  by (simp add: required_definitions_def sample_definitions_def expand_def)

lemma sample_run: "\<exists>out. main T sample_definitions = Inr (out, 0)"
  using sample_printable by (rule main_builds)

subsection \<open>The claims\<close>

text \<open>
  C4, as amended. Only lines 6 to 9 are guarded: when \<^verbatim>\<open>PROJECT_NAME\<close> or
  \<^verbatim>\<open>PROJECT_VERSION\<close> is absent, that statement is left out and is no error. Lines 54 to
  65 use all eight definitions without a guard, so a build in which any of the eight is
  absent is rejected and there is no reporter. Absence never produces a run-time
  failure: a reporter that was built has all eight definitions and exits with code 0.
\<close>

theorem absent_definition_rejects_build:
  fixes T :: "'a::len toolchain"
  shows "((\<exists>n \<in> set required_definitions. \<not> defined D n) \<longrightarrow> (\<exists>e. main T D = Inl e))
    \<and> (\<forall>out rc. main T D = Inr (out, rc) \<longrightarrow>
          rc = 0 \<and> (\<forall>n \<in> set required_definitions. defined D n))
    \<and> (\<not> (defined D ''PROJECT_NAME'' \<and> defined D ''PROJECT_VERSION'') \<longrightarrow>
          project_line D = Inr [])"
  using main_rejects_absent [of D T] main_Inr_defined [of T D] main_exit_code [of T D]
    project_line_omitted [of D]
  by blast

theorem absent_definition_rejects_build_witness:
  "(\<exists>e. main lp64_gcc (sample_definitions(''MSG2'' := None)) = Inl e)
   \<and> (\<exists>out. main lp64_gcc sample_definitions = Inr (out, 0))
   \<and> project_line (sample_definitions(''PROJECT_VERSION'' := None)) = Inr []"
proof -
  have "\<exists>n \<in> set required_definitions. \<not> defined (sample_definitions(''MSG2'' := None)) n"
    by (simp add: required_definitions_def defined_def)
  then have rejected: "\<exists>e. main lp64_gcc (sample_definitions(''MSG2'' := None)) = Inl e"
    using absent_definition_rejects_build [of "sample_definitions(''MSG2'' := None)" lp64_gcc]
    by blast
  have built: "\<exists>out. main lp64_gcc sample_definitions = Inr (out, 0)"
    by (rule sample_run)
  have "\<not> (defined (sample_definitions(''PROJECT_VERSION'' := None)) ''PROJECT_NAME''
      \<and> defined (sample_definitions(''PROJECT_VERSION'' := None)) ''PROJECT_VERSION'')"
    by (simp add: defined_def)
  then have omitted: "project_line (sample_definitions(''PROJECT_VERSION'' := None)) = Inr []"
    using absent_definition_rejects_build
      [of "sample_definitions(''PROJECT_VERSION'' := None)" lp64_gcc]
    by blast
  from rejected built omitted show ?thesis
    by blast
qed

text \<open>
  C4 as the specification states it fails when \<^verbatim>\<open>ONE_\<close> alone is absent: nothing is
  left out of the output; the build is rejected at the use of \<^verbatim>\<open>ONE_\<close> on line 57, and
  there is no reporter to run.
\<close>

theorem absent_definition_counterexample:
  "main lp64_gcc (sample_definitions(''ONE_'' := None)) = Inl (Undeclared_identifier ''ONE_'')
   \<and> \<not> (\<exists>out rc. main lp64_gcc (sample_definitions(''ONE_'' := None)) = Inr (out, rc))"
proof -
  have "main lp64_gcc (sample_definitions(''ONE_'' := None))
      = Inl (Undeclared_identifier ''ONE_'')"
    by (simp add: main_def lit_def project_line_def compile_definitions_def expand_def
        sample_definitions_def defined_def)
  then show ?thesis
    by simp
qed

text \<open>
  C5. A reporter that was built, for whatever compiler, platform and definitions, runs to
  the end and exits with code 0, and its output has a line for the compiler family, a
  line for the language standard, a line for the build mode and a line for the size of
  each of the five types.
\<close>

theorem reporter_exits_zero_with_report:
  fixes T :: "'a::len toolchain"
  assumes "main T D = Inr (out, rc)"
  shows "rc = 0
    \<and> compiler_family T \<in> set (lines_of out)
    \<and> language_standard (cplusplus T) \<in> set (lines_of out)
    \<and> build_mode D \<in> set (lines_of out)
    \<and> (''Size of char *: '' @ string_of_nat (unat (sizeof_char_ptr T * 8)) @ '' bits'')
        \<in> set (lines_of out)
    \<and> (''Size of int: '' @ string_of_nat (unat (sizeof_int T * 8)) @ '' bits'')
        \<in> set (lines_of out)
    \<and> (''Size of long: '' @ string_of_nat (unat (sizeof_long T * 8)) @ '' bits'')
        \<in> set (lines_of out)
    \<and> (''Size of float: '' @ string_of_nat (unat (sizeof_float T * 8)) @ '' bits'')
        \<in> set (lines_of out)
    \<and> (''Size of double: '' @ string_of_nat (unat (sizeof_double T * 8)) @ '' bits'')
        \<in> set (lines_of out)"
  using main_exit_code [OF assms] report_lines [OF assms] by blast

theorem reporter_exits_zero_with_report_witness:
  "\<exists>out. main lp64_gcc sample_definitions = Inr (out, 0)
    \<and> ''Compiler: GCC'' \<in> set (lines_of out)
    \<and> ''C++17'' \<in> set (lines_of out)
    \<and> ''Debug mode (NDEBUG is not defined)'' \<in> set (lines_of out)
    \<and> ''Size of char *: 64 bits'' \<in> set (lines_of out)
    \<and> ''Size of int: 32 bits'' \<in> set (lines_of out)
    \<and> ''Size of long: 64 bits'' \<in> set (lines_of out)
    \<and> ''Size of float: 32 bits'' \<in> set (lines_of out)
    \<and> ''Size of double: 64 bits'' \<in> set (lines_of out)"
proof -
  obtain out where run: "main lp64_gcc sample_definitions = Inr (out, 0)"
    using sample_run by blast
  have family: "compiler_family lp64_gcc = ''Compiler: GCC''"
    by (simp add: compiler_family_def lp64_gcc_def)
  have standard: "language_standard (cplusplus lp64_gcc) = ''C++17''"
    by (simp add: language_standard_def lp64_gcc_def)
  have mode: "build_mode sample_definitions = ''Debug mode (NDEBUG is not defined)''"
    by (simp add: build_mode_def sample_definitions_def defined_def)
  have sizes: "string_of_nat (unat (sizeof_char_ptr lp64_gcc * 8)) = ''64''"
    "string_of_nat (unat (sizeof_int lp64_gcc * 8)) = ''32''"
    "string_of_nat (unat (sizeof_long lp64_gcc * 8)) = ''64''"
    "string_of_nat (unat (sizeof_float lp64_gcc * 8)) = ''32''"
    "string_of_nat (unat (sizeof_double lp64_gcc * 8)) = ''64''"
    by (simp_all add: lp64_gcc_def string_of_nat.simps)
  have "''Compiler: GCC'' \<in> set (lines_of out)
    \<and> ''C++17'' \<in> set (lines_of out)
    \<and> ''Debug mode (NDEBUG is not defined)'' \<in> set (lines_of out)
    \<and> ''Size of char *: 64 bits'' \<in> set (lines_of out)
    \<and> ''Size of int: 32 bits'' \<in> set (lines_of out)
    \<and> ''Size of long: 64 bits'' \<in> set (lines_of out)
    \<and> ''Size of float: 32 bits'' \<in> set (lines_of out)
    \<and> ''Size of double: 64 bits'' \<in> set (lines_of out)"
    using reporter_exits_zero_with_report [OF run]
    by (simp add: family standard mode sizes)
  with run show ?thesis
    by blast
qed

text \<open>
  C6. The line for the language standard is chosen by comparing \<^verbatim>\<open>__cplusplus\<close> for
  equality with 199711, 201103, 201402, 201703 and 202002, which give C++98/03, C++11,
  C++14, C++17 and C++20. Every other value, and no value of the five, gives the line
  "Newer C++ version or unknown", the only one of the six that ends in "unknown".
\<close>

theorem language_standard_exact_match:
  fixes T :: "'a::len toolchain"
  assumes "main T D = Inr (out, rc)"
  shows "language_standard (cplusplus T) \<in> set (lines_of out)
    \<and> language_standard 199711 = ''C++98/03''
    \<and> language_standard 201103 = ''C++11''
    \<and> language_standard 201402 = ''C++14''
    \<and> language_standard 201703 = ''C++17''
    \<and> language_standard 202002 = ''C++20''
    \<and> (language_standard v = ''Newer C++ version or unknown'')
        = (v \<notin> {199711, 201103, 201402, 201703, 202002})
    \<and> suffix ''unknown'' (language_standard v)
        = (v \<notin> {199711, 201103, 201402, 201703, 202002})"
proof -
  have printed: "language_standard (cplusplus T) \<in> set (lines_of out)"
    using assms by (rule report_lines)
  have matched: "language_standard 199711 = ''C++98/03''" "language_standard 201103 = ''C++11''"
    "language_standard 201402 = ''C++14''" "language_standard 201703 = ''C++17''"
    "language_standard 202002 = ''C++20''"
    by (simp_all add: language_standard_def)
  have unmatched: "(language_standard v = ''Newer C++ version or unknown'')
      = (v \<notin> {199711, 201103, 201402, 201703, 202002})"
    by (simp add: language_standard_def)
  have named: "suffix ''unknown'' (language_standard v)
      = (v \<notin> {199711, 201103, 201402, 201703, 202002})"
    by (simp add: language_standard_def suffix_to_prefix)
  from printed matched unmatched named show ?thesis
    by blast
qed

theorem language_standard_exact_match_witness:
  "\<exists>out. main (lp64_gcc\<lparr>cplusplus := 202302\<rparr>) sample_definitions = Inr (out, 0)
    \<and> ''Newer C++ version or unknown'' \<in> set (lines_of out)"
proof -
  obtain out where run: "main (lp64_gcc\<lparr>cplusplus := 202302\<rparr>) sample_definitions = Inr (out, 0)"
    using sample_run by blast
  have "language_standard (cplusplus (lp64_gcc\<lparr>cplusplus := 202302\<rparr>))
      = ''Newer C++ version or unknown''"
    by (simp add: language_standard_def)
  with language_standard_exact_match [OF run] run show ?thesis
    by metis
qed

text \<open>
  C7. When both \<^verbatim>\<open>_DEBUG\<close> and \<^verbatim>\<open>NDEBUG\<close> are defined, the reporter prints the line
  \<^verbatim>\<open>Debug mode (_DEBUG is defined)\<close> and not the release line: the test of \<^verbatim>\<open>_DEBUG\<close>
  comes first.
\<close>

theorem debug_flag_takes_precedence:
  fixes T :: "'a::len toolchain"
  assumes "main T D = Inr (out, rc)"
    and "defined D ''_DEBUG''"
    and "defined D ''NDEBUG''"
  shows "build_mode D = ''Debug mode (_DEBUG is defined)''
    \<and> build_mode D \<noteq> ''Release mode (NDEBUG is defined)''
    \<and> ''Debug mode (_DEBUG is defined)'' \<in> set (lines_of out)"
proof -
  have mode: "build_mode D = ''Debug mode (_DEBUG is defined)''"
    using assms(2) by (simp add: build_mode_def)
  have "build_mode D \<in> set (lines_of out)"
    using assms(1) by (rule report_lines)
  with mode show ?thesis
    by simp
qed

theorem debug_flag_takes_precedence_witness:
  "\<exists>out. main lp64_gcc
        (sample_definitions(''_DEBUG'' \<mapsto> Integer_literal (Abs_long_long 1),
         ''NDEBUG'' \<mapsto> Integer_literal (Abs_long_long 1)))
      = Inr (out, 0)
    \<and> ''Debug mode (_DEBUG is defined)'' \<in> set (lines_of out)"
proof -
  let ?D = "sample_definitions(''_DEBUG'' \<mapsto> Integer_literal (Abs_long_long 1),
         ''NDEBUG'' \<mapsto> Integer_literal (Abs_long_long 1))"
  have "\<forall>n \<in> set required_definitions. \<exists>s. expand ?D n = Inr s"
    by (simp add: required_definitions_def sample_definitions_def expand_def)
  then obtain out where run: "main lp64_gcc ?D = Inr (out, 0)"
    using main_builds [of ?D lp64_gcc] by blast
  have debug: "defined ?D ''_DEBUG''" and release: "defined ?D ''NDEBUG''"
    by (simp_all add: defined_def)
  from debug_flag_takes_precedence [OF run debug release] run show ?thesis
    by blast
qed

text \<open>
  C8. For each of \<^verbatim>\<open>char *\<close>, \<^verbatim>\<open>int\<close>, \<^verbatim>\<open>long\<close>, \<^verbatim>\<open>float\<close> and \<^verbatim>\<open>double\<close> the
  reporter prints a line "Size of T: N bits" in which N is the decimal numeral of
  \<^verbatim>\<open>sizeof(T) * 8\<close>, the product as \<^verbatim>\<open>size_t\<close> computes it, for the platform's
  \<^verbatim>\<open>sizeof(T)\<close>.
\<close>

theorem bit_widths_are_sizeof_times_8:
  fixes T :: "'a::len toolchain"
  assumes "main T D = Inr (out, rc)"
  shows "(''Size of char *: '' @ string_of_nat (unat (sizeof_char_ptr T * 8)) @ '' bits'')
        \<in> set (lines_of out)
    \<and> (''Size of int: '' @ string_of_nat (unat (sizeof_int T * 8)) @ '' bits'')
        \<in> set (lines_of out)
    \<and> (''Size of long: '' @ string_of_nat (unat (sizeof_long T * 8)) @ '' bits'')
        \<in> set (lines_of out)
    \<and> (''Size of float: '' @ string_of_nat (unat (sizeof_float T * 8)) @ '' bits'')
        \<in> set (lines_of out)
    \<and> (''Size of double: '' @ string_of_nat (unat (sizeof_double T * 8)) @ '' bits'')
        \<in> set (lines_of out)"
  using report_lines(4-8) [OF assms] by blast

theorem bit_widths_are_sizeof_times_8_witness:
  "\<exists>out. main lp64_gcc sample_definitions = Inr (out, 0)
    \<and> ''Size of char *: 64 bits'' \<in> set (lines_of out)
    \<and> ''Size of int: 32 bits'' \<in> set (lines_of out)
    \<and> ''Size of long: 64 bits'' \<in> set (lines_of out)
    \<and> ''Size of float: 32 bits'' \<in> set (lines_of out)
    \<and> ''Size of double: 64 bits'' \<in> set (lines_of out)"
proof -
  obtain out where run: "main lp64_gcc sample_definitions = Inr (out, 0)"
    using sample_run by blast
  have sizes: "string_of_nat (unat (sizeof_char_ptr lp64_gcc * 8)) = ''64''"
    "string_of_nat (unat (sizeof_int lp64_gcc * 8)) = ''32''"
    "string_of_nat (unat (sizeof_long lp64_gcc * 8)) = ''64''"
    "string_of_nat (unat (sizeof_float lp64_gcc * 8)) = ''32''"
    "string_of_nat (unat (sizeof_double lp64_gcc * 8)) = ''64''"
    by (simp_all add: lp64_gcc_def string_of_nat.simps)
  have "''Size of char *: 64 bits'' \<in> set (lines_of out)
    \<and> ''Size of int: 32 bits'' \<in> set (lines_of out)
    \<and> ''Size of long: 64 bits'' \<in> set (lines_of out)
    \<and> ''Size of float: 32 bits'' \<in> set (lines_of out)
    \<and> ''Size of double: 64 bits'' \<in> set (lines_of out)"
    using bit_widths_are_sizeof_times_8 [OF run] by (simp add: sizes)
  with run show ?thesis
    by blast
qed

text \<open>
  C10. When neither \<^verbatim>\<open>_DEBUG\<close> nor \<^verbatim>\<open>NDEBUG\<close> is defined, the reporter prints the line
  \<^verbatim>\<open>Debug mode (NDEBUG is not defined)\<close>: debug is the mode of the \<^verbatim>\<open>#else\<close> branch.
\<close>

theorem debug_is_default_build_mode:
  fixes T :: "'a::len toolchain"
  assumes "main T D = Inr (out, rc)"
    and "\<not> defined D ''_DEBUG''"
    and "\<not> defined D ''NDEBUG''"
  shows "build_mode D = ''Debug mode (NDEBUG is not defined)''
    \<and> ''Debug mode (NDEBUG is not defined)'' \<in> set (lines_of out)"
proof -
  have mode: "build_mode D = ''Debug mode (NDEBUG is not defined)''"
    using assms(2,3) by (simp add: build_mode_def)
  have "build_mode D \<in> set (lines_of out)"
    using assms(1) by (rule report_lines)
  with mode show ?thesis
    by simp
qed

theorem debug_is_default_build_mode_witness:
  "\<exists>out. main lp64_gcc sample_definitions = Inr (out, 0)
    \<and> ''Debug mode (NDEBUG is not defined)'' \<in> set (lines_of out)"
proof -
  obtain out where run: "main lp64_gcc sample_definitions = Inr (out, 0)"
    using sample_run by blast
  have no_debug: "\<not> defined sample_definitions ''_DEBUG''"
    and no_release: "\<not> defined sample_definitions ''NDEBUG''"
    by (simp_all add: sample_definitions_def defined_def)
  from debug_is_default_build_mode [OF run no_debug no_release] run show ?thesis
    by blast
qed

end
